theory Spec2Isabelle
  imports Main
begin

section \<open>Values of the runtime\<close>

text \<open>
  The scripts of the repository run on Node.js.  The values that reach the functions under
  study are modelled by one datatype.  A function value is a reference \<open>VFun f\<close> into a
  table of caller-supplied functions, a promise is a reference \<open>VPromise p\<close> into the heap
  of promises that the call builds.  \<open>VError m\<close> is the object built by
  \<^verbatim>\<open>new Error(m)\<close>.  An object \<open>VObj fs\<close> is a record of strings and numbers, as the
  result objects of the repository are; it has no methods, so it is never a thenable.
  A promise or another thenable that does not belong to the call (one that the caller or
  the callback made, such as the promise that an \<^verbatim>\<open>async\<close> callback returns) is
  \<open>VThenable out\<close>, where \<open>out\<close> is how it ends: fulfilled with a value, rejected with a
  reason, or \<open>Pending\<close> when it never settles.  Operation parameters (\<^verbatim>\<open>param\<close>,
  \<^verbatim>\<open>param1\<close>, \<^verbatim>\<open>param2\<close>) are strings, as at every call site of the asynchronous
  functions in the repository; the trailing \<^verbatim>\<open>callback\<close> argument is an arbitrary value,
  \<open>VUndefined\<close> when it is omitted.
\<close>

datatype js_field = FStr string | FNum int

datatype js_value =
    VUndefined
  | VNull
  | VBool bool
  | VNum int
  | VStr string
  | VError string
  | VObj "(string \<times> js_field) list"
  | VFun nat
  | VPromise nat
  | VThenable settlement
and settlement = Pending | Fulfilled js_value | Rejected js_value

text \<open>The \<^verbatim>\<open>typeof\<close> operator.\<close>

fun js_typeof :: "js_value \<Rightarrow> string" where
  "js_typeof VUndefined = ''undefined''"
| "js_typeof VNull = ''object''"
| "js_typeof (VBool b) = ''boolean''"
| "js_typeof (VNum n) = ''number''"
| "js_typeof (VStr s) = ''string''"
| "js_typeof (VError m) = ''object''"
| "js_typeof (VObj fs) = ''object''"
| "js_typeof (VFun f) = ''function''"
| "js_typeof (VPromise p) = ''object''"
| "js_typeof (VThenable out) = ''object''"

text \<open>The conversion to a boolean that \<^verbatim>\<open>if (callback)\<close> performs.\<close>

fun truthy :: "js_value \<Rightarrow> bool" where
  "truthy VUndefined = False"
| "truthy VNull = False"
| "truthy (VBool b) = b"
| "truthy (VNum n) = (n \<noteq> 0)"
| "truthy (VStr s) = (s \<noteq> [])"
| "truthy (VError m) = True"
| "truthy (VObj fs) = True"
| "truthy (VFun f) = True"
| "truthy (VPromise p) = True"
| "truthy (VThenable out) = True"

text \<open>The values that a promise resolved with them follows instead of being fulfilled.\<close>

fun thenable :: "js_value \<Rightarrow> bool" where
  "thenable (VPromise p) = True"
| "thenable (VThenable out) = True"
| "thenable v = False"

text \<open>
  The behaviour of the caller-supplied functions: applied to its arguments, function \<open>f\<close>
  either returns a value or throws one.
\<close>

datatype completion = Returns js_value | Throws js_value

type_synonym behaviours = "nat \<Rightarrow> js_value list \<Rightarrow> completion"

text \<open>The \<open>n\<close>-th positional argument as the callee sees it: a missing one is \<^verbatim>\<open>undefined\<close>.\<close>

definition arg :: "nat \<Rightarrow> js_value list \<Rightarrow> js_value" where
  "arg n args = (if n < length args then args ! n else VUndefined)"


section \<open>Promises, the task queues and the event loop\<close>

text \<open>
  The handlers that the sources pass to \<^verbatim>\<open>then\<close> and \<^verbatim>\<open>catch\<close>:
  \<open>HCallbackOk cb\<close> is \<^verbatim>\<open>result => callback(null, result)\<close>,
  \<open>HCallbackErr cb\<close> is \<^verbatim>\<open>err => callback(err)\<close>,
  \<open>HObserver k\<close> is a handler of the calling code, which records what it receives, and
  \<open>HAbsent\<close> is a handler that was not given (the settlement passes through).
  \<open>HFollow p\<close> is the pair of functions with which promise \<open>p\<close> follows a promise it was
  resolved with: they settle \<open>p\<close> the way that promise settles.
\<close>

datatype handler =
  HAbsent | HCallbackOk js_value | HCallbackErr js_value | HObserver nat | HFollow nat

record reaction =
  on_fulfilled :: handler
  on_rejected :: handler
  derived :: nat

record promise =
  status :: settlement
  reactions :: "reaction list"

text \<open>
  The microtasks: the reaction of a promise to its settlement; the job that makes promise
  \<open>p\<close> follow the thenable \<open>v\<close> it was resolved with (it calls \<^verbatim>\<open>v.then\<close>); and the
  settlement of a foreign thenable reaching the promise that follows it.
\<close>

datatype job =
    ReactionJob reaction settlement
  | ThenableJob js_value nat
  | FollowJob nat settlement

text \<open>
  The bodies of the timer callbacks of the sources, one constructor for each closure, with
  the variables it captures.
\<close>

datatype task =
    GoodCallbackTimer string js_value
  | GoodPromiseTimer string nat
  | BadTimer string js_value nat
  | DualModeFunctionTimer string string nat
  | DualModeFuncTimer string nat
  | VersatileTimer string nat
  | CallbackOnlyFunctionTimer string string js_value
  | CallbackOnlyFuncTimer string js_value

text \<open>
  What an execution does, in the order in which it happens: the test
  \<^verbatim>\<open>typeof callback === 'function'\<close> and its result, a timer being set, the call returning
  to its caller or throwing, an exception that nothing catches, a caller-supplied function
  being invoked, an attempt to call a value that is not a function, a promise being settled,
  and a handler of the caller receiving a settlement.
\<close>

datatype event =
    ModeCheck bool
  | TimerSet nat
  | Returned js_value
  | Thrown js_value
  | Uncaught js_value
  | Invoked nat "js_value list"
  | NotCallable js_value
  | Settled nat settlement
  | Observed nat settlement

record runtime =
  heap :: "promise list"
  microtasks :: "job list"
  timers :: "(nat \<times> task) list"
  clock :: nat
  trace :: "event list"
  uncaught :: "js_value option"
  resolved :: "nat list"

text \<open>
  \<open>resolved\<close> lists the promises whose \<^verbatim>\<open>resolve\<close> or \<^verbatim>\<open>reject\<close> has been called: for
  these a further call does nothing, also while the promise is still pending because it
  follows a thenable.
\<close>

definition boot :: "nat \<Rightarrow> runtime" where
  "boot now = \<lparr>heap = [], microtasks = [], timers = [], clock = now, trace = [],
     uncaught = None, resolved = []\<rparr>"

definition log :: "event \<Rightarrow> runtime \<Rightarrow> runtime" where
  "log e st = st\<lparr>trace := trace st @ [e]\<rparr>"

text \<open>
  \<^verbatim>\<open>setTimeout(body, delay)\<close>; \<^verbatim>\<open>setImmediate(body)\<close> is the delay 0.  Running a task
  takes no time in the model, so an immediate runs before every timer with a positive delay.
\<close>

definition set_timer :: "nat \<Rightarrow> task \<Rightarrow> runtime \<Rightarrow> runtime" where
  "set_timer delay body st =
     log (TimerSet delay) (st\<lparr>timers := timers st @ [(clock st + delay, body)]\<rparr>)"

text \<open>\<^verbatim>\<open>new Promise\<close>: the new promise is the next cell of the heap.\<close>

definition new_promise :: "runtime \<Rightarrow> nat \<times> runtime" where
  "new_promise st =
     (length (heap st), st\<lparr>heap := heap st @ [\<lparr>status = Pending, reactions = []\<rparr>]\<rparr>)"

text \<open>
  Settling a promise: only a pending promise changes.  The reactions registered so far
  become microtasks.
\<close>

definition settle :: "nat \<Rightarrow> settlement \<Rightarrow> runtime \<Rightarrow> runtime" where
  "settle p out st =
     (if p < length (heap st) \<and> status (heap st ! p) = Pending \<and> out \<noteq> Pending
      then log (Settled p out)
             (st\<lparr>heap := (heap st)[p := \<lparr>status = out, reactions = []\<rparr>],
                 microtasks := microtasks st @
                   map (\<lambda>r. ReactionJob r out) (reactions (heap st ! p))\<rparr>)
      else st)"

text \<open>
  The \<^verbatim>\<open>resolve\<close> and \<^verbatim>\<open>reject\<close> functions of a promise.  Only the first call of either
  counts.  Resolved with itself the promise is rejected with a \<^verbatim>\<open>TypeError\<close>; resolved
  with another promise or thenable it stays pending and a microtask makes it follow that
  one; resolved with any other value it is fulfilled.
\<close>

definition resolve :: "nat \<Rightarrow> js_value \<Rightarrow> runtime \<Rightarrow> runtime" where
  "resolve p v st =
     (if p \<in> set (resolved st) then st
      else (let st1 = st\<lparr>resolved := p # resolved st\<rparr>
            in if v = VPromise p
               then settle p (Rejected (VError ''TypeError: Chaining cycle detected for promise'')) st1
               else if thenable v
               then st1\<lparr>microtasks := microtasks st1 @ [ThenableJob v p]\<rparr>
               else settle p (Fulfilled v) st1))"

definition reject :: "nat \<Rightarrow> js_value \<Rightarrow> runtime \<Rightarrow> runtime" where
  "reject p e st =
     (if p \<in> set (resolved st) then st
      else settle p (Rejected e) (st\<lparr>resolved := p # resolved st\<rparr>))"

text \<open>
  \<^verbatim>\<open>resolve\<close> with the value that another promise was fulfilled with: such a value is
  not a thenable, and the promise is fulfilled with it.
\<close>

definition fulfil :: "nat \<Rightarrow> js_value \<Rightarrow> runtime \<Rightarrow> runtime" where
  "fulfil p v st =
     (if p \<in> set (resolved st) then st
      else settle p (Fulfilled v) (st\<lparr>resolved := p # resolved st\<rparr>))"

text \<open>
  \<^verbatim>\<open>p.then(onFulfilled, onRejected)\<close>; \<^verbatim>\<open>p.then(f)\<close> is \<open>promise_then p f HAbsent\<close> and
  \<^verbatim>\<open>p.catch(g)\<close> is \<open>promise_then p HAbsent g\<close>.  It returns the derived promise.
\<close>

definition promise_then :: "nat \<Rightarrow> handler \<Rightarrow> handler \<Rightarrow> runtime \<Rightarrow> nat \<times> runtime" where
  "promise_then p onF onR st =
     (let (d, st1) = new_promise st;
          r = \<lparr>on_fulfilled = onF, on_rejected = onR, derived = d\<rparr>
      in if p < length (heap st)
         then (case status (heap st ! p) of
                 Pending \<Rightarrow>
                   (d, st1\<lparr>heap := (heap st1)[p := (heap st ! p)
                              \<lparr>reactions := reactions (heap st ! p) @ [r]\<rparr>]\<rparr>)
               | out \<Rightarrow> (d, st1\<lparr>microtasks := microtasks st1 @ [ReactionJob r out]\<rparr>))
         else (d, st1))"

text \<open>
  Calling a value: a function is invoked (the invocation is recorded) and completes as its
  behaviour says; calling anything else is recorded as such and throws a
  \<^verbatim>\<open>TypeError\<close>.
\<close>

definition call_value ::
  "behaviours \<Rightarrow> js_value \<Rightarrow> js_value list \<Rightarrow> runtime \<Rightarrow> completion \<times> runtime" where
  "call_value b callee args st =
     (case callee of
        VFun f \<Rightarrow> (b f args, log (Invoked f args) st)
      | _ \<Rightarrow> (Throws (VError ''TypeError: callback is not a function''),
              log (NotCallable callee) st))"

text \<open>
  A handler applied to a settlement: how it completes, and the new state.  The arrow
  functions \<^verbatim>\<open>result => callback(null, result)\<close> and \<^verbatim>\<open>err => callback(err)\<close> return what
  the callback returns.  The handlers of the caller and the functions of \<open>HFollow\<close> return
  \<^verbatim>\<open>undefined\<close>.
\<close>

definition run_handler ::
  "behaviours \<Rightarrow> handler \<Rightarrow> settlement \<Rightarrow> js_value \<Rightarrow> runtime \<Rightarrow> completion \<times> runtime" where
  "run_handler b h out v st =
     (case h of
        HCallbackOk cb \<Rightarrow> call_value b cb [VNull, v] st
      | HCallbackErr cb \<Rightarrow> call_value b cb [v] st
      | HObserver k \<Rightarrow> (Returns VUndefined, log (Observed k out) st)
      | HFollow p \<Rightarrow> (Returns VUndefined, settle p out st)
      | HAbsent \<Rightarrow> (Returns VUndefined, st))"

text \<open>
  The completion of a handler reaches the derived promise: the value that the handler
  returns resolves it (so that it follows a promise that the handler returns), and what the
  handler throws rejects it.
\<close>

definition finish_job :: "nat \<Rightarrow> completion \<times> runtime \<Rightarrow> runtime" where
  "finish_job d r = (case fst r of Returns v \<Rightarrow> resolve d v (snd r)
                                 | Throws e \<Rightarrow> reject d e (snd r))"

text \<open>
  A reaction job: the handler for the settlement runs and its completion reaches the
  derived promise; an absent handler passes the settlement on.  A thenable job calls
  \<^verbatim>\<open>then\<close> on the thenable with the functions that settle the promise that follows it:
  on a promise of the heap this is \<open>promise_then\<close>; a foreign thenable hands over its
  settlement in a microtask of its own, as a promise that is already settled does, and
  never when it never settles.
\<close>

fun run_job :: "behaviours \<Rightarrow> job \<Rightarrow> runtime \<Rightarrow> runtime" where
  "run_job b (ReactionJob r Pending) st = st"
| "run_job b (ReactionJob r (Fulfilled v)) st =
     (if on_fulfilled r = HAbsent then fulfil (derived r) v st
      else finish_job (derived r) (run_handler b (on_fulfilled r) (Fulfilled v) v st))"
| "run_job b (ReactionJob r (Rejected e)) st =
     (if on_rejected r = HAbsent then reject (derived r) e st
      else finish_job (derived r) (run_handler b (on_rejected r) (Rejected e) e st))"
| "run_job b (ThenableJob (VPromise q) p) st =
     snd (promise_then q (HFollow p) (HFollow p) st)"
| "run_job b (ThenableJob (VThenable out) p) st =
     (if out = Pending then st else st\<lparr>microtasks := microtasks st @ [FollowJob p out]\<rparr>)"
| "run_job b (ThenableJob v p) st = st"
| "run_job b (FollowJob p out) st = settle p out st"

text \<open>Sequencing of two steps, the second of which is skipped when the first throws.\<close>

definition and_then ::
  "completion \<times> runtime \<Rightarrow> (runtime \<Rightarrow> completion \<times> runtime) \<Rightarrow> completion \<times> runtime" where
  "and_then r k = (case fst r of Throws e \<Rightarrow> r | Returns v \<Rightarrow> k (snd r))"

text \<open>
  The object literal that \<^verbatim>\<open>dualModeFunction\<close> and \<^verbatim>\<open>callbackOnlyFunction\<close> build
  as their result; \<^verbatim>\<open>Date.now()\<close> reads the clock of the runtime.
\<close>

definition processed :: "string \<Rightarrow> string \<Rightarrow> nat \<Rightarrow> js_value" where
  "processed param1 param2 now =
     VObj [(''param1'', FStr param1), (''param2'', FStr param2),
           (''message'', FStr (''Processed: '' @ param1)),
           (''timestamp'', FNum (int now))]"

text \<open>\<^verbatim>\<open>if (typeof callback === 'function') callback(...)\<close>, as in \<^verbatim>\<open>badDualMode\<close>.\<close>

definition call_if_function ::
  "behaviours \<Rightarrow> js_value \<Rightarrow> js_value list \<Rightarrow> runtime \<Rightarrow> completion \<times> runtime" where
  "call_if_function b callback args st =
     (let st1 = log (ModeCheck (js_typeof callback = ''function'')) st
      in if js_typeof callback = ''function'' then call_value b callback args st1
         else (Returns VUndefined, st1))"

text \<open>The timer callbacks; what they return is not used.\<close>

fun run_task :: "behaviours \<Rightarrow> task \<Rightarrow> runtime \<Rightarrow> completion \<times> runtime" where
  "run_task b (GoodCallbackTimer param callback) st =
     (if param = ''fail'' then call_value b callback [VError ''Failure!''] st
      else call_value b callback [VNull, VStr param] st)"
| "run_task b (GoodPromiseTimer param p) st =
     (if param = ''fail'' then (Returns VUndefined, reject p (VError ''Failure!'') st)
      else (Returns VUndefined, resolve p (VStr param) st))"
| "run_task b (BadTimer param callback p) st =
     (if param = ''fail''
      then and_then (call_if_function b callback [VError ''Failure!''] st)
             (\<lambda>s. (Returns VUndefined, reject p (VError ''Failure!'') s))
      else and_then (call_if_function b callback [VNull, VStr param] st)
             (\<lambda>s. (Returns VUndefined, resolve p (VStr param) s)))"
| "run_task b (DualModeFunctionTimer param1 param2 work) st =
     (if param1 = ''error'' then (Returns VUndefined, reject work (VError ''Operation failed'') st)
      else (Returns VUndefined, resolve work
              (processed param1 param2 (clock st)) st))"
| "run_task b (DualModeFuncTimer param work) st =
     (if param = ''err'' then (Returns VUndefined, reject work (VError ''Dual-mode function error'') st)
      else (Returns VUndefined, resolve work (VStr (''Dual-mode result: '' @ param)) st))"
| "run_task b (VersatileTimer param work) st =
     (if param = ''error'' then (Returns VUndefined, reject work (VError ''Failed'') st)
      else (Returns VUndefined, resolve work (VStr (''Result: '' @ param)) st))"
| "run_task b (CallbackOnlyFunctionTimer param1 param2 callback) st =
     (if param1 = ''error'' then call_value b callback [VError ''Operation failed''] st
      else call_value b callback
             [VNull, processed param1 param2 (clock st)] st)"
| "run_task b (CallbackOnlyFuncTimer param callback) st =
     (if param = ''err'' then call_value b callback [VError ''Callback function error''] st
      else call_value b callback [VNull, VStr (''Callback result: '' @ param)] st)"

text \<open>
  A timer callback that throws is an uncaught exception: nothing catches it, the rest of
  the callback does not run and the process ends.
\<close>

definition fire :: "behaviours \<Rightarrow> task \<Rightarrow> runtime \<Rightarrow> runtime" where
  "fire b body st =
     (let r = run_task b body st
      in case fst r of Returns v \<Rightarrow> snd r
                     | Throws e \<Rightarrow> log (Uncaught e) ((snd r)\<lparr>uncaught := Some e\<rparr>))"

text \<open>The timer that is due first; among timers due at the same time, the one set first.\<close>

fun next_timer :: "(nat \<times> task) list \<Rightarrow> ((nat \<times> task) \<times> (nat \<times> task) list) option" where
  "next_timer [] = None"
| "next_timer (x # xs) =
     (case next_timer xs of
        None \<Rightarrow> Some (x, [])
      | Some (y, ys) \<Rightarrow> if fst x \<le> fst y then Some (x, xs) else Some (y, x # ys))"

text \<open>
  One turn of the event loop: the oldest microtask if there is one, otherwise the next
  timer, whose due time the clock then shows.  \<open>None\<close>: nothing is left to run.
\<close>

definition step :: "behaviours \<Rightarrow> runtime \<Rightarrow> runtime option" where
  "step b st =
     (if uncaught st \<noteq> None then None
      else case microtasks st of
             j # js \<Rightarrow> Some (run_job b j (st\<lparr>microtasks := js\<rparr>))
           | [] \<Rightarrow>
               (case next_timer (timers st) of
                  None \<Rightarrow> None
                | Some (t, rest) \<Rightarrow>
                    Some (fire b (snd t) (st\<lparr>timers := rest, clock := max (clock st) (fst t)\<rparr>))))"

text \<open>
  The event loop runs until nothing is left; \<open>None\<close> is a loop that never ends.  A
  rejected promise that has no handler stays as it is: what the runtime reports about it is
  not part of the model.
\<close>

partial_function (option) run_loop :: "behaviours \<Rightarrow> runtime \<Rightarrow> runtime option" where
  "run_loop b st = (case step b st of None \<Rightarrow> Some st | Some st' \<Rightarrow> run_loop b st')"


section \<open>The functions of the repository\<close>

text \<open>
  Each function takes its arguments and the state of the runtime and returns its return
  value with the new state.  A function that can throw returns \<open>Inl\<close> of the thrown value.
\<close>

subsection \<open>\<^verbatim>\<open>examples/6-bad-vs-good-dualmode.js\<close>\<close>

definition badDualMode :: "string \<Rightarrow> js_value \<Rightarrow> runtime \<Rightarrow> js_value \<times> runtime" where
  "badDualMode param callback st =
     (let (p, st1) = new_promise st
      in (VPromise p, set_timer 10 (BadTimer param callback p) st1))"

definition goodDualMode :: "string \<Rightarrow> js_value \<Rightarrow> runtime \<Rightarrow> js_value \<times> runtime" where
  "goodDualMode param callback st =
     (let st1 = log (ModeCheck (js_typeof callback = ''function'')) st
      in if js_typeof callback = ''function''
         then (VUndefined, set_timer 10 (GoodCallbackTimer param callback) st1)
         else (let (p, st2) = new_promise st1
               in (VPromise p, set_timer 10 (GoodPromiseTimer param p) st2)))"

definition goodDualModeSync ::
  "behaviours \<Rightarrow> js_value \<Rightarrow> js_value \<Rightarrow> runtime \<Rightarrow> (js_value + js_value) \<times> runtime" where
  "goodDualModeSync b param callback st =
     (let st1 = log (ModeCheck (js_typeof callback = ''function'')) st
      in if js_typeof callback = ''function''
         then (let r = call_value b callback [VNull, param] st1
               in case fst r of Returns v \<Rightarrow> (Inr VUndefined, snd r)
                              | Throws e \<Rightarrow> (Inl e, snd r))
         else (Inr param, st1))"

subsection \<open>The dual-mode pattern: \<^verbatim>\<open>dualModeFunction\<close> and \<^verbatim>\<open>dualModeFunc\<close>\<close>

definition dualModeFunction ::
  "string \<Rightarrow> string \<Rightarrow> js_value \<Rightarrow> runtime \<Rightarrow> js_value \<times> runtime" where
  "dualModeFunction param1 param2 callback st =
     (let (work, st1) = new_promise st;
          st2 = set_timer 100 (DualModeFunctionTimer param1 param2 work) st1;
          st3 = log (ModeCheck (js_typeof callback = ''function'')) st2
      in if js_typeof callback = ''function''
         then (let (p2, st4) = promise_then work (HCallbackOk callback) HAbsent st3;
                   (p3, st5) = promise_then p2 HAbsent (HCallbackErr callback) st4
               in (VUndefined, st5))
         else (VPromise work, st3))"

definition dualModeFunc :: "string \<Rightarrow> js_value \<Rightarrow> runtime \<Rightarrow> js_value \<times> runtime" where
  "dualModeFunc param callback st =
     (let (work, st1) = new_promise st;
          st2 = set_timer 0 (DualModeFuncTimer param work) st1;
          st3 = log (ModeCheck (js_typeof callback = ''function'')) st2
      in if js_typeof callback = ''function''
         then (let (p2, st4) = promise_then work (HCallbackOk callback) HAbsent st3;
                   (p3, st5) = promise_then p2 HAbsent (HCallbackErr callback) st4
               in (VUndefined, st5))
         else (VPromise work, st3))"

definition callbackOnlyFunc :: "string \<Rightarrow> js_value \<Rightarrow> runtime \<Rightarrow> js_value \<times> runtime" where
  "callbackOnlyFunc param callback st =
     (VUndefined, set_timer 0 (CallbackOnlyFuncTimer param callback) st)"

subsection \<open>\<^verbatim>\<open>examples/2-callback-only.js\<close> and \<^verbatim>\<open>examples/3-promise-only.js\<close>\<close>

definition callbackOnlyFunction ::
  "string \<Rightarrow> string \<Rightarrow> js_value \<Rightarrow> runtime \<Rightarrow> js_value \<times> runtime" where
  "callbackOnlyFunction param1 param2 callback st =
     (VUndefined, set_timer 100 (CallbackOnlyFunctionTimer param1 param2 callback) st)"

definition versatileFunction :: "string \<Rightarrow> js_value \<Rightarrow> runtime \<Rightarrow> js_value \<times> runtime" where
  "versatileFunction param callback st =
     (let (work, st1) = new_promise st;
          st2 = set_timer 100 (VersatileTimer param work) st1
      in if truthy callback
         then (let (p2, st3) = promise_then work (HCallbackOk callback) HAbsent st2;
                   (p3, st4) = promise_then p2 HAbsent (HCallbackErr callback) st3
               in (VPromise work, st4))
         else (VPromise work, st2))"


section \<open>A call and what its caller can see\<close>

text \<open>
  The caller makes the call on a fresh runtime and gets the return value back (the event
  \<open>Returned\<close>).  Then it does with the return value all it can do to learn the outcome:
  when the value is a promise it attaches a success and a failure handler
  (\<^verbatim>\<open>.then(onOk, onErr)\<close>, which is also what \<^verbatim>\<open>await\<close> does); on any other value there is
  nothing to attach to.  Then the event loop runs.
\<close>

definition call :: "(runtime \<Rightarrow> js_value \<times> runtime) \<Rightarrow> runtime \<Rightarrow> js_value \<times> runtime" where
  "call f st = (let r = f st in (fst r, log (Returned (fst r)) (snd r)))"

definition observe :: "nat \<Rightarrow> js_value \<Rightarrow> runtime \<Rightarrow> runtime" where
  "observe k rv st =
     (case rv of VPromise p \<Rightarrow> snd (promise_then p (HObserver k) (HObserver k) st)
               | _ \<Rightarrow> st)"

definition session :: "behaviours \<Rightarrow> (runtime \<Rightarrow> js_value \<times> runtime) \<Rightarrow> runtime option" where
  "session b f = (let r = call f (boot 0) in run_loop b (observe 0 (fst r) (snd r)))"

text \<open>The same for a function that runs its callback itself and can throw.\<close>

definition call_sync ::
  "(runtime \<Rightarrow> (js_value + js_value) \<times> runtime) \<Rightarrow> runtime \<Rightarrow> (js_value + js_value) \<times> runtime"
  where
  "call_sync f st =
     (let r = f st
      in (fst r, log (case fst r of Inr v \<Rightarrow> Returned v | Inl e \<Rightarrow> Thrown e) (snd r)))"

definition session_sync ::
  "behaviours \<Rightarrow> (runtime \<Rightarrow> (js_value + js_value) \<times> runtime) \<Rightarrow> runtime option" where
  "session_sync b f = (let r = call_sync f (boot 0) in run_loop b (snd r))"

text \<open>
  What a trace says: the argument lists a function was invoked with, the values that were
  called or that something tried to call, the settlements of a promise, and what the
  handlers of the caller received.
\<close>

fun invocations :: "nat \<Rightarrow> event list \<Rightarrow> js_value list list" where
  "invocations f [] = []"
| "invocations f (Invoked g args # es) =
     (if g = f then args # invocations f es else invocations f es)"
| "invocations f (e # es) = invocations f es"

fun all_invocations :: "event list \<Rightarrow> (nat \<times> js_value list) list" where
  "all_invocations [] = []"
| "all_invocations (Invoked g args # es) = (g, args) # all_invocations es"
| "all_invocations (e # es) = all_invocations es"

fun call_attempts :: "event list \<Rightarrow> js_value list" where
  "call_attempts [] = []"
| "call_attempts (Invoked g args # es) = VFun g # call_attempts es"
| "call_attempts (NotCallable v # es) = v # call_attempts es"
| "call_attempts (e # es) = call_attempts es"

fun settlements :: "nat \<Rightarrow> event list \<Rightarrow> settlement list" where
  "settlements p [] = []"
| "settlements p (Settled q out # es) =
     (if q = p then out # settlements p es else settlements p es)"
| "settlements p (e # es) = settlements p es"

fun observations :: "event list \<Rightarrow> settlement list" where
  "observations [] = []"
| "observations (Observed k out # es) = out # observations es"
| "observations (e # es) = observations es"

definition trace_of :: "behaviours \<Rightarrow> (runtime \<Rightarrow> js_value \<times> runtime) \<Rightarrow> event list option" where
  "trace_of b f = map_option trace (session b f)"

definition trace_of_sync ::
  "behaviours \<Rightarrow> (runtime \<Rightarrow> (js_value + js_value) \<times> runtime) \<Rightarrow> event list option" where
  "trace_of_sync b f = map_option trace (session_sync b f)"

fun is_return :: "event \<Rightarrow> bool" where
  "is_return (Returned v) = True"
| "is_return (Thrown e) = True"
| "is_return e = False"

fun is_delivery :: "event \<Rightarrow> bool" where
  "is_delivery (Invoked f args) = True"
| "is_delivery (Settled p out) = True"
| "is_delivery (Observed k out) = True"
| "is_delivery e = False"

fun is_mode_check :: "event \<Rightarrow> bool" where
  "is_mode_check (ModeCheck c) = True"
| "is_mode_check e = False"

fun is_timer_set :: "event \<Rightarrow> bool" where
  "is_timer_set (TimerSet d) = True"
| "is_timer_set e = False"

text \<open>
  Deferred delivery of a trace: the call comes back to its caller, nothing is delivered
  before that, and something is delivered after it.
\<close>

definition deferred :: "event list \<Rightarrow> bool" where
  "deferred tr =
     (list_ex is_return tr \<and>
      \<not> list_ex is_delivery (takeWhile (\<lambda>e. \<not> is_return e) tr) \<and>
      list_ex is_delivery (dropWhile (\<lambda>e. \<not> is_return e) tr))"

text \<open>
  The mode is checked exactly once, and no timer is set before the check.
\<close>

definition checked_before_scheduling :: "event list \<Rightarrow> bool" where
  "checked_before_scheduling tr =
     (length (filter is_mode_check tr) = 1 \<and>
      \<not> list_ex is_timer_set (takeWhile (\<lambda>e. \<not> is_mode_check e) tr))"

text \<open>
  The mode is checked exactly once, within the call: before the call returns, and so
  before any task that the call set runs and before anything is delivered.
\<close>

definition checked_within_call :: "event list \<Rightarrow> bool" where
  "checked_within_call tr =
     (length (filter is_mode_check tr) = 1 \<and>
      list_ex is_mode_check (takeWhile (\<lambda>e. \<not> is_return e) tr) \<and>
      \<not> list_ex is_delivery (takeWhile (\<lambda>e. \<not> is_mode_check e) tr))"

text \<open>
  Some callbacks: one that always returns \<^verbatim>\<open>undefined\<close>, one that throws when it is handed
  a result, one that always throws \<^verbatim>\<open>null\<close>, an \<^verbatim>\<open>async\<close> one whose body throws, so that
  it returns a promise that rejects, and an \<^verbatim>\<open>async\<close> one whose body returns.
\<close>

definition returns_normally :: behaviours where
  "returns_normally f args = Returns VUndefined"

definition throws_on_result :: behaviours where
  "throws_on_result f args =
     (if arg 0 args = VNull then Throws (VError ''handler failed'') else Returns VUndefined)"

definition throws_null :: behaviours where
  "throws_null f args = Throws VNull"

definition async_failing :: behaviours where
  "async_failing f args = Returns (VThenable (Rejected (VError ''handler failed'')))"

definition async_succeeding :: behaviours where
  "async_succeeding f args = Returns (VThenable (Fulfilled VUndefined))"

text \<open>
  The values that, returned by the callback to the \<^verbatim>\<open>then\<close> step of \<^verbatim>\<open>versatileFunction\<close>,
  make the promise of that step reject: a promise or thenable that ends rejected, and the
  promise of the step itself, the second one of the heap, which resolved with itself is
  rejected for the cycle.
\<close>

fun rejecting :: "js_value \<Rightarrow> bool" where
  "rejecting (VThenable (Rejected e)) = True"
| "rejecting (VPromise p) = (p = Suc 0)"
| "rejecting v = False"

text \<open>The events of a trace that are settlements, and those that are settlements or
  invocations.\<close>

fun is_settled :: "event \<Rightarrow> bool" where
  "is_settled (Settled p out) = True"
| "is_settled e = False"

fun is_chain_event :: "event \<Rightarrow> bool" where
  "is_chain_event (Settled p out) = True"
| "is_chain_event (Invoked f args) = True"
| "is_chain_event e = False"

text \<open>
  A deferred-result handle: the value is a promise of the heap that is still pending, so
  that \<open>promise_then\<close> registers the handlers given to it and they run on settlement.
\<close>

definition pending_handle :: "js_value \<times> runtime \<Rightarrow> bool" where
  "pending_handle r =
     (case fst r of
        VPromise p \<Rightarrow> p < length (heap (snd r)) \<and> status (heap (snd r) ! p) = Pending
      | _ \<Rightarrow> False)"

text \<open>The error and the result that an error-first callback sees in an argument list.\<close>

definition error_first :: "js_value list \<Rightarrow> js_value \<times> js_value" where
  "error_first args = (arg 0 args, arg 1 args)"

text \<open>The exceptions of a trace: those thrown to the caller and those that nothing caught.\<close>

fun raised :: "event list \<Rightarrow> js_value list" where
  "raised [] = []"
| "raised (Thrown e # es) = e # raised es"
| "raised (Uncaught e # es) = e # raised es"
| "raised (e # es) = raised es"



section \<open>The traces of the calls\<close>

text \<open>
  For every parameter and every behaviour of the callback the event loop comes to an end.
  Where the callback is not part of a promise chain the trace of the call is known in full;
  where it is, the trace is known up to the invocation of the callback, and after it come
  only settlements and, at most, further invocations.
\<close>

lemmas runtime_defs = trace_of_def session_def call_def observe_def boot_def log_def set_timer_def
  new_promise_def settle_def resolve_def reject_def fulfil_def promise_then_def call_value_def
  run_handler_def finish_job_def and_then_def call_if_function_def fire_def step_def Let_def

lemma typeof_function: "js_typeof v = ''function'' \<longleftrightarrow> (\<exists>f. v = VFun f)"
  by (cases v) simp_all

lemma typeof_cases:
  obtains (callable) f where "v = VFun f" | (other) "js_typeof v \<noteq> ''function''"
  using typeof_function by blast

lemma completion_cases:
  obtains (throws) e where "c = Throws e"
  | (plain) v where "c = Returns v" "\<not> thenable v"
  | (never) "c = Returns (VThenable Pending)"
  | (fulfils) x where "c = Returns (VThenable (Fulfilled x))"
  | (rejects) e where "c = Returns (VThenable (Rejected e))"
  | (heap) q where "c = Returns (VPromise q)"
proof (cases c)
  case (Returns v)
  show ?thesis
  proof (cases v)
    case (VThenable out)
    with Returns show ?thesis by (cases out) (auto intro: never fulfils rejects)
  qed (use Returns in \<open>auto intro: plain heap\<close>)
qed (auto intro: throws)

lemma plain_not_promise [simp]: "\<not> thenable v \<Longrightarrow> v \<noteq> VPromise p"
  by auto

lemma processed_plain [simp]:
  "\<not> thenable (processed param1 param2 now)"
  "processed param1 param2 now \<noteq> VPromise p"
  by (simp_all add: processed_def)

lemma split_trace:
  assumes "map_option (\<lambda>tr. (take n tr, list_all P (drop n tr))) t = Some (pre, True)"
  shows "\<exists>ev. t = Some (pre @ ev) \<and> list_all P ev"
proof (cases t)
  case None
  with assms show ?thesis by simp
next
  case (Some tr)
  with assms have "take n tr = pre" and "list_all P (drop n tr)" by simp_all
  moreover have "tr = take n tr @ drop n tr" by simp
  ultimately show ?thesis using Some by metis
qed

lemma settled_events:
  "list_all is_settled ev \<Longrightarrow>
   invocations f ev = [] \<and> all_invocations ev = [] \<and> list_all is_chain_event ev"
proof (induction ev)
  case (Cons e ev)
  then show ?case by (cases e) simp_all
qed simp

lemma chain_events:
  "list_all is_chain_event ev \<Longrightarrow>
   observations ev = [] \<and> filter is_mode_check ev = [] \<and> raised ev = []"
proof (induction ev)
  case (Cons e ev)
  then show ?case by (cases e) simp_all
qed simp

subsection \<open>Callbacks invoked from a timer\<close>

lemma goodDualMode_callback_trace:
  "trace_of b (goodDualMode param (VFun f)) =
     Some ([ModeCheck True, TimerSet 10, Returned VUndefined] @
       (if param = ''fail''
        then Invoked f [VError ''Failure!''] #
               (case b f [VError ''Failure!''] of Returns v \<Rightarrow> [] | Throws e \<Rightarrow> [Uncaught e])
        else Invoked f [VNull, VStr param] #
               (case b f [VNull, VStr param] of Returns v \<Rightarrow> [] | Throws e \<Rightarrow> [Uncaught e])))"
  by (simp add: goodDualMode_def runtime_defs run_loop.simps split: completion.splits)

lemma badDualMode_trace:
  "trace_of b (badDualMode param (VFun f)) =
     Some ([TimerSet 10, Returned (VPromise 0), ModeCheck True] @
       (if param = ''fail''
        then Invoked f [VError ''Failure!''] #
             (case b f [VError ''Failure!''] of
                Throws e \<Rightarrow> [Uncaught e]
              | Returns v \<Rightarrow> [Settled 0 (Rejected (VError ''Failure!'')),
                             Observed 0 (Rejected (VError ''Failure!'')),
                             Settled 1 (Fulfilled VUndefined)])
        else Invoked f [VNull, VStr param] #
             (case b f [VNull, VStr param] of
                Throws e \<Rightarrow> [Uncaught e]
              | Returns v \<Rightarrow> [Settled 0 (Fulfilled (VStr param)),
                             Observed 0 (Fulfilled (VStr param)),
                             Settled 1 (Fulfilled VUndefined)])))"
  by (simp add: badDualMode_def runtime_defs run_loop.simps split: completion.splits)

lemma callbackOnlyFunc_trace:
  "trace_of b (callbackOnlyFunc param (VFun f)) =
     Some ([TimerSet 0, Returned VUndefined] @
       (if param = ''err''
        then Invoked f [VError ''Callback function error''] #
               (case b f [VError ''Callback function error''] of
                  Returns v \<Rightarrow> [] | Throws e \<Rightarrow> [Uncaught e])
        else Invoked f [VNull, VStr (''Callback result: '' @ param)] #
               (case b f [VNull, VStr (''Callback result: '' @ param)] of
                  Returns v \<Rightarrow> [] | Throws e \<Rightarrow> [Uncaught e])))"
  by (simp add: callbackOnlyFunc_def runtime_defs run_loop.simps split: completion.splits)

lemma callbackOnlyFunction_trace:
  "trace_of b (callbackOnlyFunction param1 param2 (VFun f)) =
     Some ([TimerSet 100, Returned VUndefined] @
       (if param1 = ''error''
        then Invoked f [VError ''Operation failed''] #
               (case b f [VError ''Operation failed''] of
                  Returns v \<Rightarrow> [] | Throws e \<Rightarrow> [Uncaught e])
        else Invoked f [VNull, processed param1 param2 100] #
               (case b f [VNull, processed param1 param2 100] of
                  Returns v \<Rightarrow> [] | Throws e \<Rightarrow> [Uncaught e])))"
  by (simp add: callbackOnlyFunction_def runtime_defs run_loop.simps split: completion.splits)

lemma goodDualModeSync_trace:
  "trace_of_sync b (goodDualModeSync b param (VFun f)) =
     Some [ModeCheck True, Invoked f [VNull, param],
           (case b f [VNull, param] of Returns v \<Rightarrow> Returned VUndefined | Throws e \<Rightarrow> Thrown e)]"
  by (simp add: goodDualModeSync_def trace_of_sync_def session_sync_def call_sync_def
      runtime_defs run_loop.simps split: completion.splits)

subsection \<open>Promise mode\<close>

lemma goodDualMode_promise_trace:
  "js_typeof callback \<noteq> ''function'' \<Longrightarrow>
   trace_of b (goodDualMode param callback) =
     Some [ModeCheck False, TimerSet 10, Returned (VPromise 0),
           Settled 0 (if param = ''fail'' then Rejected (VError ''Failure!'')
                      else Fulfilled (VStr param)),
           Observed 0 (if param = ''fail'' then Rejected (VError ''Failure!'')
                       else Fulfilled (VStr param)),
           Settled 1 (Fulfilled VUndefined)]"
  by (simp add: goodDualMode_def runtime_defs run_loop.simps)

lemma dualModeFunction_promise_trace:
  "js_typeof callback \<noteq> ''function'' \<Longrightarrow>
   trace_of b (dualModeFunction param1 param2 callback) =
     Some [TimerSet 100, ModeCheck False, Returned (VPromise 0),
           Settled 0 (if param1 = ''error'' then Rejected (VError ''Operation failed'')
                      else Fulfilled (processed param1 param2 100)),
           Observed 0 (if param1 = ''error'' then Rejected (VError ''Operation failed'')
                      else Fulfilled (processed param1 param2 100)),
           Settled 1 (Fulfilled VUndefined)]"
  by (simp add: dualModeFunction_def runtime_defs run_loop.simps)

lemma dualModeFunc_promise_trace:
  "js_typeof callback \<noteq> ''function'' \<Longrightarrow>
   trace_of b (dualModeFunc param callback) =
     Some [TimerSet 0, ModeCheck False, Returned (VPromise 0),
           Settled 0 (if param = ''err'' then Rejected (VError ''Dual-mode function error'')
                      else Fulfilled (VStr (''Dual-mode result: '' @ param))),
           Observed 0 (if param = ''err'' then Rejected (VError ''Dual-mode function error'')
                      else Fulfilled (VStr (''Dual-mode result: '' @ param))),
           Settled 1 (Fulfilled VUndefined)]"
  by (simp add: dualModeFunc_def runtime_defs run_loop.simps)

subsection \<open>Callbacks invoked from the promise chain\<close>

text \<open>
  When the work fails, the \<^verbatim>\<open>catch\<close> step invokes the callback, and whatever the callback
  returns or throws only settles the promise of that step.
\<close>

lemma dualModeFunction_callback_failure:
  "map_option (\<lambda>tr. (take 6 tr, list_all is_settled (drop 6 tr)))
     (trace_of b (dualModeFunction ''error'' param2 (VFun f))) =
   Some ([TimerSet 100, ModeCheck True, Returned VUndefined,
          Settled 0 (Rejected (VError ''Operation failed'')),
          Settled 1 (Rejected (VError ''Operation failed'')),
          Invoked f [VError ''Operation failed'']], True)"
proof (cases "b f [VError ''Operation failed'']" rule: completion_cases)
  case (heap q)
  then show ?thesis
    by (simp add: dualModeFunction_def runtime_defs run_loop.simps nth_Cons' split: nat.splits)
qed (simp_all add: dualModeFunction_def runtime_defs run_loop.simps)

lemma dualModeFunc_callback_failure:
  "map_option (\<lambda>tr. (take 6 tr, list_all is_settled (drop 6 tr)))
     (trace_of b (dualModeFunc ''err'' (VFun f))) =
   Some ([TimerSet 0, ModeCheck True, Returned VUndefined,
          Settled 0 (Rejected (VError ''Dual-mode function error'')),
          Settled 1 (Rejected (VError ''Dual-mode function error'')),
          Invoked f [VError ''Dual-mode function error'']], True)"
proof (cases "b f [VError ''Dual-mode function error'']" rule: completion_cases)
  case (heap q)
  then show ?thesis
    by (simp add: dualModeFunc_def runtime_defs run_loop.simps nth_Cons' split: nat.splits)
qed (simp_all add: dualModeFunc_def runtime_defs run_loop.simps)

text \<open>
  When the work succeeds, the \<^verbatim>\<open>then\<close> step invokes the callback.  If the callback throws,
  returns a promise that rejects, or returns the promise of the step itself, that promise
  rejects and the \<^verbatim>\<open>catch\<close> step invokes the callback again.
\<close>

lemma dualModeFunction_callback_success:
  assumes "param1 \<noteq> ''error''"
  shows "map_option (\<lambda>tr. (take 5 tr, list_all is_chain_event (drop 5 tr)))
     (trace_of b (dualModeFunction param1 param2 (VFun f))) =
   Some ([TimerSet 100, ModeCheck True, Returned VUndefined,
          Settled 0 (Fulfilled (processed param1 param2 100)),
          Invoked f [VNull, processed param1 param2 100]], True)"
proof (cases "b f [VNull, processed param1 param2 100]" rule: completion_cases)
  case (throws e)
  show ?thesis
  proof (cases "b f [e]" rule: completion_cases)
    case (heap q)
    with throws assms show ?thesis
      by (simp add: dualModeFunction_def runtime_defs run_loop.simps nth_Cons' split: nat.splits)
  qed (use throws assms in \<open>simp_all add: dualModeFunction_def runtime_defs run_loop.simps\<close>)
next
  case (rejects e)
  show ?thesis
  proof (cases "b f [e]" rule: completion_cases)
    case (heap q)
    with rejects assms show ?thesis
      by (simp add: dualModeFunction_def runtime_defs run_loop.simps nth_Cons' split: nat.splits)
  qed (use rejects assms in \<open>simp_all add: dualModeFunction_def runtime_defs run_loop.simps\<close>)
next
  case (heap q)
  show ?thesis
  proof (cases "q = Suc 0")
    case True
    show ?thesis
    proof (cases "b f [VError ''TypeError: Chaining cycle detected for promise'']"
        rule: completion_cases)
      case (heap q')
      with \<open>b f [VNull, processed param1 param2 100] = Returns (VPromise q)\<close> True assms
      show ?thesis
        by (simp add: dualModeFunction_def runtime_defs run_loop.simps nth_Cons'
            split: nat.splits)
    qed (use heap True assms in
        \<open>simp_all add: dualModeFunction_def runtime_defs run_loop.simps\<close>)
  next
    case False
    with heap assms show ?thesis
      by (simp add: dualModeFunction_def runtime_defs run_loop.simps nth_Cons'
          split: nat.splits)
  qed
qed (use assms in \<open>simp_all add: dualModeFunction_def runtime_defs run_loop.simps\<close>)

lemma dualModeFunc_callback_success:
  assumes "param \<noteq> ''err''"
  shows "map_option (\<lambda>tr. (take 5 tr, list_all is_chain_event (drop 5 tr)))
     (trace_of b (dualModeFunc param (VFun f))) =
   Some ([TimerSet 0, ModeCheck True, Returned VUndefined,
          Settled 0 (Fulfilled (VStr (''Dual-mode result: '' @ param))),
          Invoked f [VNull, VStr (''Dual-mode result: '' @ param)]], True)"
proof (cases "b f [VNull, VStr (''Dual-mode result: '' @ param)]" rule: completion_cases)
  case (throws e)
  show ?thesis
  proof (cases "b f [e]" rule: completion_cases)
    case (heap q)
    with throws assms show ?thesis
      by (simp add: dualModeFunc_def runtime_defs run_loop.simps nth_Cons' split: nat.splits)
  qed (use throws assms in \<open>simp_all add: dualModeFunc_def runtime_defs run_loop.simps\<close>)
next
  case (rejects e)
  show ?thesis
  proof (cases "b f [e]" rule: completion_cases)
    case (heap q)
    with rejects assms show ?thesis
      by (simp add: dualModeFunc_def runtime_defs run_loop.simps nth_Cons' split: nat.splits)
  qed (use rejects assms in \<open>simp_all add: dualModeFunc_def runtime_defs run_loop.simps\<close>)
next
  case (heap q)
  show ?thesis
  proof (cases "q = Suc 0")
    case True
    show ?thesis
    proof (cases "b f [VError ''TypeError: Chaining cycle detected for promise'']"
        rule: completion_cases)
      case (heap q')
      with \<open>b f [VNull, VStr (''Dual-mode result: '' @ param)] = Returns (VPromise q)\<close> True assms
      show ?thesis
        by (simp add: dualModeFunc_def runtime_defs run_loop.simps nth_Cons'
            split: nat.splits)
    qed (use heap True assms in
        \<open>simp_all add: dualModeFunc_def runtime_defs run_loop.simps\<close>)
  next
    case False
    with heap assms show ?thesis
      by (simp add: dualModeFunc_def runtime_defs run_loop.simps nth_Cons'
          split: nat.splits)
  qed
qed (use assms in \<open>simp_all add: dualModeFunc_def runtime_defs run_loop.simps\<close>)

text \<open>Both cases together: the call, the settlement of the work, and then the chain.\<close>

lemma dualModeFunction_callback_shape:
  "\<exists>ev. trace_of b (dualModeFunction param1 param2 (VFun f)) =
          Some ([TimerSet 100, ModeCheck True, Returned VUndefined,
                 Settled 0 (if param1 = ''error'' then Rejected (VError ''Operation failed'')
                            else Fulfilled (processed param1 param2 100))] @ ev) \<and>
        list_all is_chain_event ev"
proof (cases "param1 = ''error''")
  case True
  from split_trace [OF dualModeFunction_callback_failure [of b param2 f]]
  obtain ev where "trace_of b (dualModeFunction ''error'' param2 (VFun f)) =
      Some ([TimerSet 100, ModeCheck True, Returned VUndefined,
          Settled 0 (Rejected (VError ''Operation failed'')),
          Settled 1 (Rejected (VError ''Operation failed'')),
          Invoked f [VError ''Operation failed'']] @ ev)" and "list_all is_settled ev"
    by blast
  with True settled_events [of ev] show ?thesis by simp
next
  case False
  from split_trace [OF dualModeFunction_callback_success [OF False, of b param2 f]]
  obtain ev where "trace_of b (dualModeFunction param1 param2 (VFun f)) =
      Some ([TimerSet 100, ModeCheck True, Returned VUndefined,
          Settled 0 (Fulfilled (processed param1 param2 100)),
          Invoked f [VNull, processed param1 param2 100]] @ ev)" and "list_all is_chain_event ev"
    by blast
  with False show ?thesis by simp
qed

lemma dualModeFunc_callback_shape:
  "\<exists>ev. trace_of b (dualModeFunc param (VFun f)) =
          Some ([TimerSet 0, ModeCheck True, Returned VUndefined,
                 Settled 0 (if param = ''err'' then Rejected (VError ''Dual-mode function error'')
                            else Fulfilled (VStr (''Dual-mode result: '' @ param)))] @ ev) \<and>
        list_all is_chain_event ev"
proof (cases "param = ''err''")
  case True
  from split_trace [OF dualModeFunc_callback_failure [of b f]]
  obtain ev where "trace_of b (dualModeFunc ''err'' (VFun f)) =
      Some ([TimerSet 0, ModeCheck True, Returned VUndefined,
          Settled 0 (Rejected (VError ''Dual-mode function error'')),
          Settled 1 (Rejected (VError ''Dual-mode function error'')),
          Invoked f [VError ''Dual-mode function error'']] @ ev)" and "list_all is_settled ev"
    by blast
  with True settled_events [of ev] show ?thesis by simp
next
  case False
  from split_trace [OF dualModeFunc_callback_success [OF False, of b f]]
  obtain ev where "trace_of b (dualModeFunc param (VFun f)) =
      Some ([TimerSet 0, ModeCheck True, Returned VUndefined,
          Settled 0 (Fulfilled (VStr (''Dual-mode result: '' @ param))),
          Invoked f [VNull, VStr (''Dual-mode result: '' @ param)]] @ ev)"
    and "list_all is_chain_event ev"
    by blast
  with False show ?thesis by simp
qed

section \<open>The return value and the two ways of delivery\<close>

lemma callback_mode_returns:
  "fst (goodDualMode param (VFun f) st) = VUndefined"
  "fst (dualModeFunction param1 param2 (VFun f) st) = VUndefined"
  "fst (dualModeFunc param (VFun f) st) = VUndefined"
  by (simp_all add: goodDualMode_def dualModeFunction_def dualModeFunc_def Let_def
      split: prod.splits)

lemma promise_mode_returns:
  assumes "js_typeof callback \<noteq> ''function''"
  shows "fst (goodDualMode param callback st) = VPromise (length (heap st))"
    and "fst (dualModeFunction param1 param2 callback st) = VPromise (length (heap st))"
    and "fst (dualModeFunc param callback st) = VPromise (length (heap st))"
  using assms
  by (simp_all add: goodDualMode_def dualModeFunction_def dualModeFunc_def new_promise_def
      Let_def log_def set_timer_def)

lemma promise_mode_pending:
  assumes "js_typeof callback \<noteq> ''function''"
  shows "pending_handle (goodDualMode param callback st)"
    and "pending_handle (dualModeFunction param1 param2 callback st)"
    and "pending_handle (dualModeFunc param callback st)"
  using assms
  by (simp_all add: pending_handle_def goodDualMode_def dualModeFunction_def dualModeFunc_def
      new_promise_def Let_def log_def set_timer_def)

text \<open>
  C1, mode purity.  A call of \<^verbatim>\<open>goodDualMode\<close>, \<^verbatim>\<open>dualModeFunction\<close> or \<^verbatim>\<open>dualModeFunc\<close>
  that is given a function as its callback returns \<^verbatim>\<open>undefined\<close>.  A call without a
  callback returns a promise: the promise created by the call, which is pending when the
  call returns, so that handlers can be attached to it; the success and failure handlers
  that the caller attaches (or the \<^verbatim>\<open>await\<close> of the caller) receive the outcome of the
  work, once.
\<close>

theorem mode_purity:
  "fst (goodDualMode param (VFun f) st) = VUndefined \<and>
   fst (dualModeFunction param1 param2 (VFun f) st) = VUndefined \<and>
   fst (dualModeFunc param (VFun f) st) = VUndefined \<and>
   fst (goodDualMode param VUndefined st) = VPromise (length (heap st)) \<and>
   fst (dualModeFunction param1 param2 VUndefined st) = VPromise (length (heap st)) \<and>
   fst (dualModeFunc param VUndefined st) = VPromise (length (heap st)) \<and>
   pending_handle (goodDualMode param VUndefined st) \<and>
   pending_handle (dualModeFunction param1 param2 VUndefined st) \<and>
   pending_handle (dualModeFunc param VUndefined st) \<and>
   map_option observations (trace_of b (goodDualMode param VUndefined)) =
     Some [if param = ''fail'' then Rejected (VError ''Failure!'') else Fulfilled (VStr param)] \<and>
   map_option observations (trace_of b (dualModeFunction param1 param2 VUndefined)) =
     Some [if param1 = ''error'' then Rejected (VError ''Operation failed'')
           else Fulfilled (processed param1 param2 100)] \<and>
   map_option observations (trace_of b (dualModeFunc param VUndefined)) =
     Some [if param = ''err'' then Rejected (VError ''Dual-mode function error'')
           else Fulfilled (VStr (''Dual-mode result: '' @ param))]"
  by (simp add: callback_mode_returns promise_mode_returns promise_mode_pending
      goodDualMode_promise_trace dualModeFunction_promise_trace dualModeFunc_promise_trace)

lemma callback_mode_unobserved:
  "map_option observations (trace_of b (goodDualMode param (VFun f))) = Some []"
  "map_option observations (trace_of b (dualModeFunction param1 param2 (VFun f))) = Some []"
  "map_option observations (trace_of b (dualModeFunc param (VFun f))) = Some []"
proof -
  show "map_option observations (trace_of b (goodDualMode param (VFun f))) = Some []"
    by (simp add: goodDualMode_callback_trace split: completion.splits)
  from dualModeFunction_callback_shape [of b param1 param2 f] chain_events
  show "map_option observations (trace_of b (dualModeFunction param1 param2 (VFun f))) = Some []"
    by auto
  from dualModeFunc_callback_shape [of b param f] chain_events
  show "map_option observations (trace_of b (dualModeFunc param (VFun f))) = Some []"
    by auto
qed

lemma promise_mode_no_invocation:
  assumes "js_typeof callback \<noteq> ''function''"
  shows "map_option all_invocations (trace_of b (goodDualMode param callback)) = Some []"
    and "map_option all_invocations (trace_of b (dualModeFunction param1 param2 callback)) =
           Some []"
    and "map_option all_invocations (trace_of b (dualModeFunc param callback)) = Some []"
  using assms
  by (simp_all add: goodDualMode_promise_trace dualModeFunction_promise_trace
      dualModeFunc_promise_trace)

lemma never_both:
  "map_option (\<lambda>tr. all_invocations tr = [] \<or> observations tr = [])
     (trace_of b (goodDualMode param callback)) = Some True"
  "map_option (\<lambda>tr. all_invocations tr = [] \<or> observations tr = [])
     (trace_of b (dualModeFunction param1 param2 callback)) = Some True"
  "map_option (\<lambda>tr. all_invocations tr = [] \<or> observations tr = [])
     (trace_of b (dualModeFunc param callback)) = Some True"
proof -
  show "map_option (\<lambda>tr. all_invocations tr = [] \<or> observations tr = [])
     (trace_of b (goodDualMode param callback)) = Some True"
  proof (cases callback rule: typeof_cases)
    case (callable f)
    with callback_mode_unobserved(1) [of b param f] show ?thesis by auto
  next
    case other
    then show ?thesis by (simp add: goodDualMode_promise_trace)
  qed
  show "map_option (\<lambda>tr. all_invocations tr = [] \<or> observations tr = [])
     (trace_of b (dualModeFunction param1 param2 callback)) = Some True"
  proof (cases callback rule: typeof_cases)
    case (callable f)
    with callback_mode_unobserved(2) [of b param1 param2 f] show ?thesis by auto
  next
    case other
    then show ?thesis by (simp add: dualModeFunction_promise_trace)
  qed
  show "map_option (\<lambda>tr. all_invocations tr = [] \<or> observations tr = [])
     (trace_of b (dualModeFunc param callback)) = Some True"
  proof (cases callback rule: typeof_cases)
    case (callable f)
    with callback_mode_unobserved(3) [of b param f] show ?thesis by auto
  next
    case other
    then show ?thesis by (simp add: dualModeFunc_promise_trace)
  qed
qed

text \<open>
  C2, exclusivity.  In callback mode the call returns \<^verbatim>\<open>undefined\<close>, the caller has no
  handle to attach a handler to, and no handler of the caller ever observes a settlement.
  In promise mode no function is ever invoked.  Whatever the callback argument is, the
  outcome never reaches the caller both through an invocation and through a handler.
\<close>

theorem exclusivity:
  "fst (goodDualMode param (VFun f) st) = VUndefined \<and>
   fst (dualModeFunction param1 param2 (VFun f) st) = VUndefined \<and>
   fst (dualModeFunc param (VFun f) st) = VUndefined \<and>
   map_option observations (trace_of b (goodDualMode param (VFun f))) = Some [] \<and>
   map_option observations (trace_of b (dualModeFunction param1 param2 (VFun f))) = Some [] \<and>
   map_option observations (trace_of b (dualModeFunc param (VFun f))) = Some [] \<and>
   map_option all_invocations (trace_of b (goodDualMode param VUndefined)) = Some [] \<and>
   map_option all_invocations (trace_of b (dualModeFunction param1 param2 VUndefined)) =
     Some [] \<and>
   map_option all_invocations (trace_of b (dualModeFunc param VUndefined)) = Some [] \<and>
   map_option (\<lambda>tr. all_invocations tr = [] \<or> observations tr = [])
     (trace_of b (goodDualMode param callback)) = Some True \<and>
   map_option (\<lambda>tr. all_invocations tr = [] \<or> observations tr = [])
     (trace_of b (dualModeFunction param1 param2 callback)) = Some True \<and>
   map_option (\<lambda>tr. all_invocations tr = [] \<or> observations tr = [])
     (trace_of b (dualModeFunc param callback)) = Some True"
  by (simp add: callback_mode_returns callback_mode_unobserved promise_mode_no_invocation
      never_both)

section \<open>How often the outcome is delivered\<close>

text \<open>
  \<^verbatim>\<open>goodDualMode\<close> invokes its callback exactly once, whatever the callback does, and in
  promise mode the returned promise of each of the three functions settles exactly once.
  \<^verbatim>\<open>dualModeFunc\<close> invokes its callback once when the work fails, and once when the work
  succeeds and the callback returns a value that is not a promise.
\<close>

lemma goodDualMode_single_delivery:
  "map_option (\<lambda>tr. length (invocations f tr)) (trace_of b (goodDualMode param (VFun f))) =
     Some 1"
  by (simp add: goodDualMode_callback_trace split: completion.splits)

lemma promise_mode_settles_once:
  assumes "js_typeof callback \<noteq> ''function''"
  shows "map_option (\<lambda>tr. length (settlements 0 tr))
           (trace_of b (goodDualMode param callback)) = Some 1"
    and "map_option (\<lambda>tr. length (settlements 0 tr))
           (trace_of b (dualModeFunction param1 param2 callback)) = Some 1"
    and "map_option (\<lambda>tr. length (settlements 0 tr))
           (trace_of b (dualModeFunc param callback)) = Some 1"
  using assms
  by (simp_all add: goodDualMode_promise_trace dualModeFunction_promise_trace
      dualModeFunc_promise_trace)

lemma dualModeFunc_single_delivery_on_failure:
  "map_option (invocations f) (trace_of b (dualModeFunc ''err'' (VFun f))) =
     Some [[VError ''Dual-mode function error'']]"
  using split_trace [OF dualModeFunc_callback_failure [of b f]] settled_events by auto

lemma dualModeFunc_single_delivery_on_plain_return:
  assumes "param \<noteq> ''err''"
    and "b f [VNull, VStr (''Dual-mode result: '' @ param)] = Returns v" and "\<not> thenable v"
  shows "map_option (invocations f) (trace_of b (dualModeFunc param (VFun f))) =
     Some [[VNull, VStr (''Dual-mode result: '' @ param)]]"
  using assms by (simp add: dualModeFunc_def runtime_defs run_loop.simps)

text \<open>
  The second invocation does not need an exception: an \<^verbatim>\<open>async\<close> callback whose body
  throws returns a promise that rejects, the promise of the \<^verbatim>\<open>then\<close> step follows it, and
  the \<^verbatim>\<open>catch\<close> step invokes the callback again.
\<close>

lemma dualModeFunc_invokes_async_callback_twice:
  "map_option (invocations 0) (trace_of async_failing (dualModeFunc ''test'' (VFun 0))) =
     Some [[VNull, VStr ''Dual-mode result: test''], [VError ''handler failed'']]"
  by (simp add: dualModeFunc_def runtime_defs run_loop.simps async_failing_def)

text \<open>
  C3, single delivery, says that the callback is invoked exactly once.  In
  \<^verbatim>\<open>dualModeFunc\<close> the callback sits in \<^verbatim>\<open>work.then(result => callback(null, result))\<close>
  followed by \<^verbatim>\<open>.catch(err => callback(err))\<close>, and the \<^verbatim>\<open>catch\<close> also handles what
  the first handler throws: for the parameter \<^verbatim>\<open>'test'\<close> and a callback that throws when
  it is handed the result, the callback is invoked twice, first with the result and then
  with its own exception.
\<close>

theorem dualModeFunc_invokes_callback_twice:
  "map_option (invocations 0) (trace_of throws_on_result (dualModeFunc ''test'' (VFun 0))) =
     Some [[VNull, VStr ''Dual-mode result: test''], [VError ''handler failed'']]"
  by (simp add: dualModeFunc_def runtime_defs run_loop.simps throws_on_result_def arg_def)

section \<open>When the outcome is delivered\<close>

lemma goodDualMode_deferred:
  "map_option deferred (trace_of b (goodDualMode param callback)) = Some True"
proof (cases callback rule: typeof_cases)
  case (callable f)
  then show ?thesis
    by (simp add: goodDualMode_callback_trace deferred_def split: completion.splits)
next
  case other
  then show ?thesis by (simp add: goodDualMode_promise_trace deferred_def)
qed

lemma dualModeFunction_deferred:
  "map_option deferred (trace_of b (dualModeFunction param1 param2 callback)) = Some True"
proof (cases callback rule: typeof_cases)
  case (callable f)
  with dualModeFunction_callback_shape [of b param1 param2 f] show ?thesis
    by (auto simp: deferred_def)
next
  case other
  then show ?thesis by (simp add: dualModeFunction_promise_trace deferred_def)
qed

lemma dualModeFunc_deferred:
  "map_option deferred (trace_of b (dualModeFunc param callback)) = Some True"
proof (cases callback rule: typeof_cases)
  case (callable f)
  with dualModeFunc_callback_shape [of b param f] show ?thesis
    by (auto simp: deferred_def)
next
  case other
  then show ?thesis by (simp add: dualModeFunc_promise_trace deferred_def)
qed

lemma callbackOnlyFunc_deferred:
  "map_option deferred (trace_of b (callbackOnlyFunc param (VFun f))) = Some True"
  by (simp add: callbackOnlyFunc_trace deferred_def split: completion.splits)

lemma goodDualModeSync_not_deferred:
  "map_option deferred (trace_of_sync b (goodDualModeSync b v (VFun f))) = Some False"
  by (simp add: goodDualModeSync_trace deferred_def split: completion.splits)

text \<open>
  C4, deferred delivery, says that no dual-mode function invokes the callback within the
  call.  \<^verbatim>\<open>goodDualModeSync\<close>, the synchronous variant that the example keeps for its
  performance test, does: called with \<^verbatim>\<open>1\<close> and a callback, it invokes the callback and
  only then returns.
\<close>

theorem goodDualModeSync_delivers_within_call:
  "trace_of_sync returns_normally (goodDualModeSync returns_normally (VNum 1) (VFun 0)) =
     Some [ModeCheck True, Invoked 0 [VNull, VNum 1], Returned VUndefined] \<and>
   map_option deferred
     (trace_of_sync returns_normally (goodDualModeSync returns_normally (VNum 1) (VFun 0))) =
     Some False"
  by (simp add: goodDualModeSync_trace returns_normally_def deferred_def)

text \<open>
  C4 as the code has it.  For every call of \<^verbatim>\<open>goodDualMode\<close>, \<^verbatim>\<open>dualModeFunction\<close> and
  \<^verbatim>\<open>dualModeFunc\<close>, whatever the callback argument is, and of \<^verbatim>\<open>callbackOnlyFunc\<close> with
  a function, the call returns to its caller, no invocation of the callback and no
  settlement happens before that, and one happens after it.  \<^verbatim>\<open>goodDualModeSync\<close> with a
  function as callback invokes it before the call is over.
\<close>

theorem deferred_delivery:
  "map_option deferred (trace_of b (goodDualMode param callback)) = Some True \<and>
   map_option deferred (trace_of b (dualModeFunction param1 param2 callback)) = Some True \<and>
   map_option deferred (trace_of b (dualModeFunc param callback)) = Some True \<and>
   map_option deferred (trace_of b (callbackOnlyFunc param (VFun f))) = Some True \<and>
   map_option deferred (trace_of_sync b (goodDualModeSync b v (VFun f))) = Some False"
  by (simp add: goodDualMode_deferred dualModeFunction_deferred dualModeFunc_deferred
      callbackOnlyFunc_deferred goodDualModeSync_not_deferred)

section \<open>What the callback receives\<close>

text \<open>
  \<^verbatim>\<open>goodDualMode\<close> and \<^verbatim>\<open>callbackOnlyFunction\<close> invoke the callback from their timer, once:
  a failure of the work arrives as an \<^verbatim>\<open>Error\<close> object in the first argument with no
  second argument (the callee sees \<^verbatim>\<open>undefined\<close>), a success as \<^verbatim>\<open>null\<close> in the first
  argument and the result in the second.  \<^verbatim>\<open>dualModeFunction\<close> does the same with a failure,
  and with a success in its first invocation.
\<close>

lemma error_first_from_timer:
  "map_option (map error_first \<circ> invocations f) (trace_of b (goodDualMode param (VFun f))) =
     Some [if param = ''fail'' then (VError ''Failure!'', VUndefined)
           else (VNull, VStr param)] \<and>
   map_option (map error_first \<circ> invocations f)
       (trace_of b (callbackOnlyFunction param1 param2 (VFun f))) =
     Some [if param1 = ''error'' then (VError ''Operation failed'', VUndefined)
           else (VNull, processed param1 param2 100)]"
  by (simp add: goodDualMode_callback_trace callbackOnlyFunction_trace error_first_def arg_def
      split: completion.splits)

lemma dualModeFunction_error_first_on_failure:
  "map_option (map error_first \<circ> invocations f)
       (trace_of b (dualModeFunction ''error'' param2 (VFun f))) =
     Some [(VError ''Operation failed'', VUndefined)]"
  using split_trace [OF dualModeFunction_callback_failure [of b param2 f]] settled_events
  by (auto simp: error_first_def arg_def)

lemma dualModeFunction_error_first_on_success:
  assumes "param1 \<noteq> ''error''"
  shows "map_option (map error_first \<circ> take 1 \<circ> invocations f)
       (trace_of b (dualModeFunction param1 param2 (VFun f))) =
     Some [(VNull, processed param1 param2 100)]"
  using split_trace [OF dualModeFunction_callback_success [OF assms, of b param2 f]]
  by (auto simp: error_first_def arg_def)

text \<open>
  C5, error-first integrity, says that the callback receives either an error and no
  result, or \<^verbatim>\<open>null\<close> and the result.  In \<^verbatim>\<open>dualModeFunction\<close> the \<^verbatim>\<open>catch\<close> step hands the
  callback whatever made the \<^verbatim>\<open>then\<close> step fail, the work or the callback itself: a
  callback that throws \<^verbatim>\<open>null\<close> when the work has succeeded is invoked a second time with
  \<^verbatim>\<open>null\<close> as the error and no result, although the work succeeded with a result.
\<close>

theorem dualModeFunction_breaks_error_first:
  "map_option (map error_first \<circ> invocations 0)
       (trace_of throws_null (dualModeFunction ''hello'' ''world'' (VFun 0))) =
     Some [(VNull, processed ''hello'' ''world'' 100), (VNull, VUndefined)]"
  by (simp add: dualModeFunction_def runtime_defs run_loop.simps throws_null_def
      error_first_def arg_def)

section \<open>When the mode is checked\<close>

lemma goodDualMode_checked:
  "map_option (\<lambda>tr. checked_before_scheduling tr \<and> checked_within_call tr)
     (trace_of b (goodDualMode param callback)) = Some True"
proof (cases callback rule: typeof_cases)
  case (callable f)
  then show ?thesis
    by (simp add: goodDualMode_callback_trace checked_before_scheduling_def
        checked_within_call_def split: completion.splits)
next
  case other
  then show ?thesis
    by (simp add: goodDualMode_promise_trace checked_before_scheduling_def
        checked_within_call_def)
qed

lemma dualModeFunction_checked:
  "map_option (\<lambda>tr. checked_within_call tr \<and>
                   take 2 tr = [TimerSet 100, ModeCheck (js_typeof callback = ''function'')])
     (trace_of b (dualModeFunction param1 param2 callback)) = Some True"
proof (cases callback rule: typeof_cases)
  case (callable f)
  with dualModeFunction_callback_shape [of b param1 param2 f] chain_events show ?thesis
    by (auto simp: checked_within_call_def)
next
  case other
  then show ?thesis
    by (simp add: dualModeFunction_promise_trace checked_within_call_def)
qed

lemma dualModeFunc_checked:
  "map_option (\<lambda>tr. checked_within_call tr \<and>
                   take 2 tr = [TimerSet 0, ModeCheck (js_typeof callback = ''function'')])
     (trace_of b (dualModeFunc param callback)) = Some True"
proof (cases callback rule: typeof_cases)
  case (callable f)
  with dualModeFunc_callback_shape [of b param f] chain_events show ?thesis
    by (auto simp: checked_within_call_def)
next
  case other
  then show ?thesis
    by (simp add: dualModeFunc_promise_trace checked_within_call_def)
qed

text \<open>
  C6, mode-check timing, says that no timer is set before the test of the callback.  In
  \<^verbatim>\<open>dualModeFunction\<close> the executor of \<^verbatim>\<open>new Promise\<close> runs first and calls
  \<^verbatim>\<open>setTimeout\<close>; the test \<^verbatim>\<open>typeof callback === 'function'\<close> comes after it.
\<close>

theorem dualModeFunction_sets_timer_before_check:
  "map_option (take 2) (trace_of returns_normally (dualModeFunction ''hello'' ''world'' (VFun 0))) =
     Some [TimerSet 100, ModeCheck True] \<and>
   map_option checked_before_scheduling
     (trace_of returns_normally (dualModeFunction ''hello'' ''world'' (VFun 0))) = Some False"
  by (simp add: dualModeFunction_def runtime_defs run_loop.simps returns_normally_def
      checked_before_scheduling_def)

text \<open>
  C6 as the code has it.  Each of the three functions tests the callback exactly once,
  within the call: before the call returns and before anything is delivered.
  \<^verbatim>\<open>goodDualMode\<close> tests before it sets its timer; \<^verbatim>\<open>dualModeFunction\<close> and
  \<^verbatim>\<open>dualModeFunc\<close> set the timer of the work first and test next.
\<close>

theorem mode_check_timing:
  "map_option (\<lambda>tr. checked_before_scheduling tr \<and> checked_within_call tr)
     (trace_of b (goodDualMode param callback)) = Some True \<and>
   map_option (\<lambda>tr. checked_within_call tr \<and>
                   take 2 tr = [TimerSet 100, ModeCheck (js_typeof callback = ''function'')])
     (trace_of b (dualModeFunction param1 param2 callback)) = Some True \<and>
   map_option (\<lambda>tr. checked_within_call tr \<and>
                   take 2 tr = [TimerSet 0, ModeCheck (js_typeof callback = ''function'')])
     (trace_of b (dualModeFunc param callback)) = Some True"
  by (simp add: goodDualMode_checked dualModeFunction_checked dualModeFunc_checked)

section \<open>The failure scenario\<close>

text \<open>
  C7, the failure scenario.  The failing input is \<^verbatim>\<open>'fail'\<close> for \<^verbatim>\<open>goodDualMode\<close> and
  \<^verbatim>\<open>'error'\<close> for \<^verbatim>\<open>dualModeFunction\<close>.  Called with it and a callback, the function returns
  \<^verbatim>\<open>undefined\<close> and invokes the callback exactly once, whatever the callback does, with the
  \<^verbatim>\<open>Error\<close> of that failure as the first argument and no second argument.
\<close>

theorem failure_scenario:
  "fst (goodDualMode ''fail'' (VFun f) st) = VUndefined \<and>
   map_option (map error_first \<circ> invocations f) (trace_of b (goodDualMode ''fail'' (VFun f))) =
     Some [(VError ''Failure!'', VUndefined)] \<and>
   fst (dualModeFunction ''error'' param2 (VFun f) st) = VUndefined \<and>
   map_option (map error_first \<circ> invocations f)
       (trace_of b (dualModeFunction ''error'' param2 (VFun f))) =
     Some [(VError ''Operation failed'', VUndefined)]"
  by (simp add: callback_mode_returns goodDualMode_callback_trace
      dualModeFunction_error_first_on_failure error_first_def arg_def split: completion.splits)

section \<open>The returned handle\<close>

lemma dualModeFunction_promise_mode:
  "js_typeof callback \<noteq> ''function'' \<Longrightarrow>
   dualModeFunction param1 param2 callback st =
     (VPromise (length (heap st)),
      st\<lparr>heap := heap st @ [\<lparr>status = Pending, reactions = []\<rparr>],
         timers := timers st @
           [(clock st + 100, DualModeFunctionTimer param1 param2 (length (heap st)))],
         trace := trace st @ [TimerSet 100, ModeCheck False]\<rparr>)"
  by (simp add: dualModeFunction_def new_promise_def set_timer_def log_def)

lemma dualModeFunc_promise_mode:
  "js_typeof callback \<noteq> ''function'' \<Longrightarrow>
   dualModeFunc param callback st =
     (VPromise (length (heap st)),
      st\<lparr>heap := heap st @ [\<lparr>status = Pending, reactions = []\<rparr>],
         timers := timers st @ [(clock st, DualModeFuncTimer param (length (heap st)))],
         trace := trace st @ [TimerSet 0, ModeCheck False]\<rparr>)"
  by (simp add: dualModeFunc_def new_promise_def set_timer_def log_def)

lemma promise_mode_settlements:
  assumes "js_typeof callback \<noteq> ''function''"
  shows "map_option (\<lambda>tr. (settlements 0 tr, observations tr))
           (trace_of b (dualModeFunction param1 param2 callback)) =
         Some (if param1 = ''error''
               then ([Rejected (VError ''Operation failed'')],
                     [Rejected (VError ''Operation failed'')])
               else ([Fulfilled (processed param1 param2 100)],
                     [Fulfilled (processed param1 param2 100)]))"
    and "map_option (\<lambda>tr. (settlements 0 tr, observations tr))
           (trace_of b (dualModeFunc param callback)) =
         Some (if param = ''err''
               then ([Rejected (VError ''Dual-mode function error'')],
                     [Rejected (VError ''Dual-mode function error'')])
               else ([Fulfilled (VStr (''Dual-mode result: '' @ param))],
                     [Fulfilled (VStr (''Dual-mode result: '' @ param))]))"
  using assms
  by (simp_all add: dualModeFunction_promise_trace dualModeFunc_promise_trace)

text \<open>
  C8, handle identity.  In promise mode \<^verbatim>\<open>dualModeFunction\<close> and \<^verbatim>\<open>dualModeFunc\<close> create
  one promise, hand it to the timer of the work, which is the only one to settle it, and
  return that very promise: the heap grows by one cell and the returned reference and the
  reference held by the timer are that cell.  The returned handle settles once, with the
  outcome of the work, and this is what the handlers of the caller receive.
\<close>

theorem handle_identity:
  "js_typeof callback \<noteq> ''function'' \<Longrightarrow>
   dualModeFunction param1 param2 callback st =
     (VPromise (length (heap st)),
      st\<lparr>heap := heap st @ [\<lparr>status = Pending, reactions = []\<rparr>],
         timers := timers st @
           [(clock st + 100, DualModeFunctionTimer param1 param2 (length (heap st)))],
         trace := trace st @ [TimerSet 100, ModeCheck False]\<rparr>) \<and>
   dualModeFunc param callback st =
     (VPromise (length (heap st)),
      st\<lparr>heap := heap st @ [\<lparr>status = Pending, reactions = []\<rparr>],
         timers := timers st @ [(clock st, DualModeFuncTimer param (length (heap st)))],
         trace := trace st @ [TimerSet 0, ModeCheck False]\<rparr>) \<and>
   map_option (\<lambda>tr. (settlements 0 tr, observations tr))
       (trace_of b (dualModeFunction param1 param2 callback)) =
     Some (if param1 = ''error''
           then ([Rejected (VError ''Operation failed'')],
                 [Rejected (VError ''Operation failed'')])
           else ([Fulfilled (processed param1 param2 100)],
                 [Fulfilled (processed param1 param2 100)])) \<and>
   map_option (\<lambda>tr. (settlements 0 tr, observations tr))
       (trace_of b (dualModeFunc param callback)) =
     Some (if param = ''err''
           then ([Rejected (VError ''Dual-mode function error'')],
                 [Rejected (VError ''Dual-mode function error'')])
           else ([Fulfilled (VStr (''Dual-mode result: '' @ param))],
                 [Fulfilled (VStr (''Dual-mode result: '' @ param))]))"
  by (simp add: dualModeFunction_promise_mode dualModeFunc_promise_mode
      promise_mode_settlements)

theorem handle_identity_witness:
  "js_typeof VUndefined \<noteq> ''function'' \<and>
   fst (dualModeFunction ''test'' ''data'' VUndefined (boot 0)) = VPromise 0 \<and>
   timers (snd (dualModeFunction ''test'' ''data'' VUndefined (boot 0))) =
     [(100, DualModeFunctionTimer ''test'' ''data'' 0)] \<and>
   fst (dualModeFunc ''err'' VUndefined (boot 0)) = VPromise 0 \<and>
   map_option (settlements 0)
       (trace_of returns_normally (dualModeFunction ''test'' ''data'' VUndefined)) =
     Some [Fulfilled (processed ''test'' ''data'' 100)] \<and>
   map_option (settlements 0) (trace_of returns_normally (dualModeFunc ''err'' VUndefined)) =
     Some [Rejected (VError ''Dual-mode function error'')]"
proof -
  have h: "js_typeof VUndefined \<noteq> ''function''" by simp
  show ?thesis
    using handle_identity [OF h, of "''test''" "''data''" "boot 0" "''err''" returns_normally]
    by (auto simp: boot_def)
qed

section \<open>A trailing argument that is not a function\<close>

lemma promise_mode_quiet:
  assumes "js_typeof callback \<noteq> ''function''"
  shows "map_option (\<lambda>tr. (call_attempts tr, raised tr, observations tr))
           (trace_of b (goodDualMode param callback)) =
         Some ([], [], [if param = ''fail'' then Rejected (VError ''Failure!'')
                        else Fulfilled (VStr param)])"
    and "map_option (\<lambda>tr. (call_attempts tr, raised tr, observations tr))
           (trace_of b (dualModeFunction param1 param2 callback)) =
         Some ([], [], [if param1 = ''error'' then Rejected (VError ''Operation failed'')
                        else Fulfilled (processed param1 param2 100)])"
    and "map_option (\<lambda>tr. (call_attempts tr, raised tr, observations tr))
           (trace_of b (dualModeFunc param callback)) =
         Some ([], [], [if param = ''err'' then Rejected (VError ''Dual-mode function error'')
                        else Fulfilled (VStr (''Dual-mode result: '' @ param))])"
  using assms
  by (simp_all add: goodDualMode_promise_trace dualModeFunction_promise_trace
      dualModeFunc_promise_trace)

text \<open>
  C9, a trailing argument that is not a function.  When \<^verbatim>\<open>typeof callback\<close> is not
  \<^verbatim>\<open>'function'\<close> (a string, a number, an object, \<^verbatim>\<open>null\<close>), the three functions return
  the promise, nothing is invoked and nothing tries to call the value, nothing is thrown or
  left uncaught, and the handlers of the caller receive the outcome of the work.
\<close>

theorem non_function_callback:
  "js_typeof callback \<noteq> ''function'' \<Longrightarrow>
   fst (goodDualMode param callback st) = VPromise (length (heap st)) \<and>
   fst (dualModeFunction param1 param2 callback st) = VPromise (length (heap st)) \<and>
   fst (dualModeFunc param callback st) = VPromise (length (heap st)) \<and>
   map_option (\<lambda>tr. (call_attempts tr, raised tr, observations tr))
       (trace_of b (goodDualMode param callback)) =
     Some ([], [], [if param = ''fail'' then Rejected (VError ''Failure!'')
                    else Fulfilled (VStr param)]) \<and>
   map_option (\<lambda>tr. (call_attempts tr, raised tr, observations tr))
       (trace_of b (dualModeFunction param1 param2 callback)) =
     Some ([], [], [if param1 = ''error'' then Rejected (VError ''Operation failed'')
                    else Fulfilled (processed param1 param2 100)]) \<and>
   map_option (\<lambda>tr. (call_attempts tr, raised tr, observations tr))
       (trace_of b (dualModeFunc param callback)) =
     Some ([], [], [if param = ''err'' then Rejected (VError ''Dual-mode function error'')
                    else Fulfilled (VStr (''Dual-mode result: '' @ param))])"
  by (simp add: promise_mode_returns promise_mode_quiet)

theorem non_function_callback_witness:
  "js_typeof (VStr ''done'') \<noteq> ''function'' \<and>
   js_typeof (VNum 42) \<noteq> ''function'' \<and>
   js_typeof (VObj [(''retries'', FNum 3)]) \<noteq> ''function'' \<and>
   fst (goodDualMode ''fail'' (VStr ''done'') (boot 0)) = VPromise 0 \<and>
   fst (dualModeFunction ''hello'' ''world'' (VNum 42) (boot 0)) = VPromise 0 \<and>
   fst (dualModeFunc ''test'' (VObj [(''retries'', FNum 3)]) (boot 0)) = VPromise 0 \<and>
   map_option call_attempts
       (trace_of returns_normally (goodDualMode ''fail'' (VStr ''done''))) = Some [] \<and>
   map_option raised
       (trace_of returns_normally (dualModeFunction ''hello'' ''world'' (VNum 42))) = Some [] \<and>
   map_option observations
       (trace_of returns_normally (dualModeFunc ''test'' (VObj [(''retries'', FNum 3)]))) =
     Some [Fulfilled (VStr ''Dual-mode result: test'')]"
proof -
  have s: "js_typeof (VStr ''done'') \<noteq> ''function''" by simp
  have n: "js_typeof (VNum 42) \<noteq> ''function''" by simp
  have r: "js_typeof (VObj [(''retries'', FNum 3)]) \<noteq> ''function''" by simp
  show ?thesis
    using non_function_callback [OF s, of "''fail''" "boot 0" "''x''" "''y''" returns_normally]
      non_function_callback [OF n, of "''x''" "boot 0" "''hello''" "''world''" returns_normally]
      non_function_callback [OF r, of "''test''" "boot 0" "''x''" "''y''" returns_normally]
    by (auto simp: boot_def)
qed

section \<open>The functions that deliver twice\<close>

lemma bad_functions_return_promise:
  "fst (badDualMode param callback st) = VPromise (length (heap st))"
  "fst (versatileFunction param callback st) = VPromise (length (heap st))"
  by (simp_all add: badDualMode_def versatileFunction_def new_promise_def promise_then_def
      Let_def split: prod.splits)

lemma badDualMode_delivery:
  assumes "b f (if param = ''fail'' then [VError ''Failure!''] else [VNull, VStr param]) =
    Returns v"
  shows "map_option (\<lambda>tr. (invocations f tr, settlements 0 tr, observations tr))
       (trace_of b (badDualMode param (VFun f))) =
     Some (if param = ''fail''
           then ([[VError ''Failure!'']], [Rejected (VError ''Failure!'')],
                 [Rejected (VError ''Failure!'')])
           else ([[VNull, VStr param]], [Fulfilled (VStr param)], [Fulfilled (VStr param)]))"
  using assms by (simp add: badDualMode_trace split: if_splits)

text \<open>
  \<^verbatim>\<open>versatileFunction\<close> has the chain of \<^verbatim>\<open>dualModeFunction\<close> and returns the promise of the
  work as well.  When the work fails the \<^verbatim>\<open>catch\<close> step invokes the callback; when it
  succeeds the \<^verbatim>\<open>then\<close> step does, and if what the callback returns does not make the
  promise of that step reject, there is no second invocation.
\<close>

lemma versatileFunction_delivery_on_failure:
  assumes ret: "b f [VError ''Failed''] = Returns v" and ok: "\<not> rejecting v"
  shows "map_option (\<lambda>tr. (invocations f tr, settlements 0 tr, observations tr))
       (trace_of b (versatileFunction ''error'' (VFun f))) =
     Some ([[VError ''Failed'']], [Rejected (VError ''Failed'')], [Rejected (VError ''Failed'')])"
proof (cases "b f [VError ''Failed'']" rule: completion_cases)
  case (throws e)
  with ret show ?thesis by simp
next
  case (rejects e)
  with ret ok show ?thesis by auto
next
  case (heap q)
  with ret ok have "q \<noteq> Suc 0" by auto
  with heap show ?thesis
    by (simp add: versatileFunction_def runtime_defs run_loop.simps nth_Cons'
        split: nat.splits)
next
  case (plain w)
  then show ?thesis by (simp add: versatileFunction_def runtime_defs run_loop.simps)
next
  case never
  then show ?thesis by (simp add: versatileFunction_def runtime_defs run_loop.simps)
next
  case (fulfils x)
  then show ?thesis by (simp add: versatileFunction_def runtime_defs run_loop.simps)
qed

lemma versatileFunction_delivery_on_success:
  assumes param: "param \<noteq> ''error''"
    and ret: "b f [VNull, VStr (''Result: '' @ param)] = Returns v" and ok: "\<not> rejecting v"
  shows "map_option (\<lambda>tr. (invocations f tr, settlements 0 tr, observations tr))
       (trace_of b (versatileFunction param (VFun f))) =
     Some ([[VNull, VStr (''Result: '' @ param)]],
           [Fulfilled (VStr (''Result: '' @ param))],
           [Fulfilled (VStr (''Result: '' @ param))])"
proof (cases "b f [VNull, VStr (''Result: '' @ param)]" rule: completion_cases)
  case (throws e)
  with ret show ?thesis by simp
next
  case (rejects e)
  with ret ok show ?thesis by auto
next
  case (heap q)
  with ret ok have "q \<noteq> Suc 0" by auto
  with heap param show ?thesis
    by (simp add: versatileFunction_def runtime_defs run_loop.simps nth_Cons'
        split: nat.splits)
next
  case (plain w)
  with param show ?thesis by (simp add: versatileFunction_def runtime_defs run_loop.simps)
next
  case never
  with param show ?thesis by (simp add: versatileFunction_def runtime_defs run_loop.simps)
next
  case (fulfils x)
  with param show ?thesis by (simp add: versatileFunction_def runtime_defs run_loop.simps)
qed

text \<open>
  With an \<^verbatim>\<open>async\<close> callback whose body throws, which returns a promise that rejects,
  \<^verbatim>\<open>versatileFunction\<close> invokes the callback twice.
\<close>

lemma versatileFunction_invokes_async_callback_twice:
  "map_option (\<lambda>tr. (invocations 0 tr, settlements 0 tr, observations tr))
     (trace_of async_failing (versatileFunction ''test'' (VFun 0))) =
     Some ([[VNull, VStr ''Result: test''], [VError ''handler failed'']],
           [Fulfilled (VStr ''Result: test'')], [Fulfilled (VStr ''Result: test'')])"
  by (simp add: versatileFunction_def runtime_defs run_loop.simps async_failing_def)

text \<open>
  C10, double delivery, says that every call of \<^verbatim>\<open>badDualMode\<close> with a function both
  invokes the callback and settles the promise.  The timer callback of \<^verbatim>\<open>badDualMode\<close>
  invokes the callback first: when the callback throws, \<^verbatim>\<open>resolve\<close> is never reached, the
  promise stays pending and the handlers of the caller receive nothing.
\<close>

theorem badDualMode_throwing_callback:
  "map_option (\<lambda>tr. (invocations 0 tr, settlements 0 tr, observations tr))
     (trace_of throws_on_result (badDualMode ''success'' (VFun 0))) =
     Some ([[VNull, VStr ''success'']], [], [])"
  by (simp add: badDualMode_trace throws_on_result_def arg_def)

text \<open>
  C10 as the code has it.  \<^verbatim>\<open>badDualMode\<close> with a callback that does not throw, and
  \<^verbatim>\<open>versatileFunction\<close> with a callback that neither throws nor returns a promise that
  rejects, return the promise, invoke the callback once and settle the returned promise
  once, with the same outcome, and the handlers that the caller attaches to the returned
  promise receive that outcome too: the caller gets it both ways.
\<close>

theorem double_delivery:
  "((\<forall>args. \<exists>v. b f args = Returns v) \<longrightarrow>
      fst (badDualMode param (VFun f) st) = VPromise (length (heap st)) \<and>
      map_option (\<lambda>tr. (invocations f tr, settlements 0 tr, observations tr))
          (trace_of b (badDualMode param (VFun f))) =
        Some (if param = ''fail''
              then ([[VError ''Failure!'']], [Rejected (VError ''Failure!'')],
                    [Rejected (VError ''Failure!'')])
              else ([[VNull, VStr param]], [Fulfilled (VStr param)],
                    [Fulfilled (VStr param)]))) \<and>
   ((\<forall>args. \<exists>v. b f args = Returns v \<and> \<not> rejecting v) \<longrightarrow>
      fst (versatileFunction param (VFun f) st) = VPromise (length (heap st)) \<and>
      map_option (\<lambda>tr. (invocations f tr, settlements 0 tr, observations tr))
          (trace_of b (versatileFunction param (VFun f))) =
        Some (if param = ''error''
              then ([[VError ''Failed'']], [Rejected (VError ''Failed'')],
                    [Rejected (VError ''Failed'')])
              else ([[VNull, VStr (''Result: '' @ param)]],
                    [Fulfilled (VStr (''Result: '' @ param))],
                    [Fulfilled (VStr (''Result: '' @ param))])))"
proof (intro conjI impI)
  assume h: "\<forall>args. \<exists>v. b f args = Returns v"
  show "fst (badDualMode param (VFun f) st) = VPromise (length (heap st))"
    by (rule bad_functions_return_promise)
  from h obtain v
    where "b f (if param = ''fail'' then [VError ''Failure!''] else [VNull, VStr param]) =
      Returns v"
    by blast
  then show "map_option (\<lambda>tr. (invocations f tr, settlements 0 tr, observations tr))
          (trace_of b (badDualMode param (VFun f))) =
        Some (if param = ''fail''
              then ([[VError ''Failure!'']], [Rejected (VError ''Failure!'')],
                    [Rejected (VError ''Failure!'')])
              else ([[VNull, VStr param]], [Fulfilled (VStr param)],
                    [Fulfilled (VStr param)]))"
    by (rule badDualMode_delivery)
next
  assume h: "\<forall>args. \<exists>v. b f args = Returns v \<and> \<not> rejecting v"
  show "fst (versatileFunction param (VFun f) st) = VPromise (length (heap st))"
    by (rule bad_functions_return_promise)
  show "map_option (\<lambda>tr. (invocations f tr, settlements 0 tr, observations tr))
          (trace_of b (versatileFunction param (VFun f))) =
        Some (if param = ''error''
              then ([[VError ''Failed'']], [Rejected (VError ''Failed'')],
                    [Rejected (VError ''Failed'')])
              else ([[VNull, VStr (''Result: '' @ param)]],
                    [Fulfilled (VStr (''Result: '' @ param))],
                    [Fulfilled (VStr (''Result: '' @ param))]))"
  proof (cases "param = ''error''")
    case True
    from h obtain v where "b f [VError ''Failed''] = Returns v" and "\<not> rejecting v"
      by blast
    with True show ?thesis by (simp add: versatileFunction_delivery_on_failure)
  next
    case False
    from h obtain v
      where "b f [VNull, VStr (''Result: '' @ param)] = Returns v" and "\<not> rejecting v"
      by blast
    with False show ?thesis by (simp add: versatileFunction_delivery_on_success)
  qed
qed

theorem double_delivery_witness:
  "(\<forall>args. \<exists>v. returns_normally 0 args = Returns v) \<and>
   (\<forall>args. \<exists>v. async_succeeding 0 args = Returns v \<and> \<not> rejecting v) \<and>
   fst (badDualMode ''success'' (VFun 0) (boot 0)) = VPromise 0 \<and>
   map_option (\<lambda>tr. (invocations 0 tr, settlements 0 tr, observations tr))
       (trace_of returns_normally (badDualMode ''success'' (VFun 0))) =
     Some ([[VNull, VStr ''success'']], [Fulfilled (VStr ''success'')],
           [Fulfilled (VStr ''success'')]) \<and>
   map_option (\<lambda>tr. (invocations 0 tr, settlements 0 tr, observations tr))
       (trace_of async_succeeding (versatileFunction ''test'' (VFun 0))) =
     Some ([[VNull, VStr ''Result: test'']], [Fulfilled (VStr ''Result: test'')],
           [Fulfilled (VStr ''Result: test'')]) \<and>
   map_option (\<lambda>tr. (invocations 0 tr, settlements 0 tr, observations tr))
       (trace_of returns_normally (versatileFunction ''error'' (VFun 0))) =
     Some ([[VError ''Failed'']], [Rejected (VError ''Failed'')], [Rejected (VError ''Failed'')])"
proof -
  have r: "\<forall>args. \<exists>v. returns_normally 0 args = Returns v"
    by (simp add: returns_normally_def)
  have r': "\<forall>args. \<exists>v. returns_normally 0 args = Returns v \<and> \<not> rejecting v"
    by (simp add: returns_normally_def)
  have a: "\<forall>args. \<exists>v. async_succeeding 0 args = Returns v \<and> \<not> rejecting v"
    by (simp add: async_succeeding_def)
  show ?thesis
    using r a r'
      double_delivery [where b = returns_normally and f = 0 and param = "''success''"
        and st = "boot 0"]
      double_delivery [where b = async_succeeding and f = 0 and param = "''test''"
        and st = "boot 0"]
      double_delivery [where b = returns_normally and f = 0 and param = "''error''"
        and st = "boot 0"]
    by (simp add: boot_def)
qed

end
